theory Spec2Isabelle
  imports Complex_Main
begin

section \<open>Sketchbook: the airplane of \<open>src/ts/vehicles/Airplane.ts\<close>\<close>

text \<open>
  The file holds two versions of the class. The second one (angle of attack, sideslip,
  stall-aware coefficients) is the canonical force model and the one embedded here.

  JavaScript numbers are modelled as real numbers: every arithmetic operation is exact.
  \<open>Math.asin\<close> and \<open>Math.cos\<close> are implementation-approximated in ECMAScript, so the two
  lines that compute the angles take them as parameters (\<open>betaWith\<close>, \<open>alphaWith\<close>);
  \<open>beta\<close> and \<open>alpha\<close> are those lines with the exact \<open>arcsin\<close> and \<open>cos\<close>.

  The exact model and the doubles of the program part company where a quotient handed
  to \<open>Math.asin\<close> is within a rounding error of 1 or -1, that is where \<open>vz\<close> is 0 or
  tiny against \<open>vy\<close>. For that, the same two lines are modelled a second time in double
  precision, every operation rounded to the nearest double (\<open>binary64\<close>, \<open>beta64\<close>,
  \<open>alpha64\<close>).
\<close>

subsection \<open>Vectors and quaternions of the physics library\<close>

datatype vec3 = Vec3 (vx: real) (vy: real) (vz: real)

datatype quat = Quaternion (qx: real) (qy: real) (qz: real) (qw: real)

text \<open>Modelled from the spec: cannon's \<open>Vec3.length\<close>, the speed \<open>s = |v|\<close>; the
  library is not among the sources.\<close>
definition vlength :: "vec3 \<Rightarrow> real" where
  "vlength v = sqrt (vx v * vx v + vy v * vy v + vz v * vz v)"

text \<open>Modelled from the spec: cannon's \<open>Vec3.scale\<close> (componentwise product with a
  scalar).\<close>
definition vscale :: "real \<Rightarrow> vec3 \<Rightarrow> vec3" where
  "vscale k v = Vec3 (k * vx v) (k * vy v) (k * vz v)"

text \<open>Modelled from the spec: cannon's \<open>Vec3.negate\<close>.\<close>
definition vnegate :: "vec3 \<Rightarrow> vec3" where
  "vnegate v = Vec3 (- vx v) (- vy v) (- vz v)"

text \<open>Modelled from the spec: cannon's \<open>Vec3.normalize\<close>, the normalized velocity
  direction; the library sets a vector of length 0 to the zero vector.\<close>
definition vnormalize :: "vec3 \<Rightarrow> vec3" where
  "vnormalize v = (let n = vlength v in if n > 0 then vscale (1 / n) v else Vec3 0 0 0)"

text \<open>Modelled from the spec: cannon's \<open>Quaternion.inverse\<close>, the inverse orientation
  (the conjugate divided by the squared norm).\<close>
definition qinverse :: "quat \<Rightarrow> quat" where
  "qinverse q =
     (let inorm2 = 1 / (qx q * qx q + qy q * qy q + qz q * qz q + qw q * qw q)
      in Quaternion (- qx q * inorm2) (- qy q * inorm2) (- qz q * inorm2) (qw q * inorm2))"

text \<open>Modelled from the spec: cannon's \<open>Quaternion.vmult\<close>, the rotation of a vector by
  a quaternion, \<open>q v q\<^sup>*\<close>.\<close>
definition vmult :: "quat \<Rightarrow> vec3 \<Rightarrow> vec3" where
  "vmult q v =
     (let ix = qw q * vx v + qy q * vz v - qz q * vy v;
          iy = qw q * vy v + qz q * vx v - qx q * vz v;
          iz = qw q * vz v + qx q * vy v - qy q * vx v;
          iw = - qx q * vx v - qy q * vy v - qz q * vz v
      in Vec3 (ix * qw q + iw * - qx q + iy * - qz q - iz * - qy q)
              (iy * qw q + iw * - qy q + iz * - qx q - ix * - qz q)
              (iz * qw q + iw * - qz q + ix * - qy q - iy * - qx q))"

subsection \<open>The objects the airplane reads and writes\<close>

record KeyBinding =
  isPressed :: bool
  justPressed :: bool
  justReleased :: bool

record airplane_actions =
  throttle :: KeyBinding
  brake :: KeyBinding
  wheelBrake :: KeyBinding
  pitchUp :: KeyBinding
  pitchDown :: KeyBinding
  yawLeft :: KeyBinding
  yawRight :: KeyBinding
  rollLeft :: KeyBinding
  rollRight :: KeyBinding
  exitVehicle :: KeyBinding
  seat_switch :: KeyBinding
  view :: KeyBinding

text \<open>The fields of a \<open>SpringSimulator\<close> that the airplane touches are \<open>target\<close> and
  \<open>position\<close>; \<open>spring_velocity\<close> is the simulator's \<open>velocity\<close>.\<close>
record SpringSimulator =
  position :: real
  spring_velocity :: real
  target :: real

text \<open>\<open>numWheelsOnGround\<close> is \<open>this.rayCastVehicle.numWheelsOnGround\<close>;
  \<open>controllingCharacter\<close> is \<open>None\<close> where the source has \<open>undefined\<close>.\<close>
record airplane =
  enginePower :: real
  lastDrag :: real
  steeringSimulator :: SpringSimulator
  aileronSimulator :: SpringSimulator
  elevatorSimulator :: SpringSimulator
  rudderSimulator :: SpringSimulator
  actions :: airplane_actions
  numWheelsOnGround :: nat
  controllingCharacter :: "nat option"

text \<open>A force handed to the rigid body: the force vector and its point of application,
  both in the body frame.\<close>
type_synonym local_force = "vec3 \<times> vec3"

text \<open>The rigid body. \<open>applied\<close> lists the calls of \<open>applyLocalForce\<close> the body has
  received, oldest first; it stands for the body's force and torque accumulators.\<close>
record body =
  velocity :: vec3
  quaternion :: quat
  angularVelocity :: vec3
  applied :: "local_force list"

text \<open>Modelled from the spec: cannon's \<open>Body.applyLocalForce\<close>, which applies a force
  at a body-local point; the model records the call.\<close>
definition applyLocalForce :: "vec3 \<Rightarrow> vec3 \<Rightarrow> body \<Rightarrow> body" where
  "applyLocalForce f pt b = b\<lparr>applied := applied b @ [(f, pt)]\<rparr>"

subsection \<open>\<open>update\<close>: engine power and spring targets\<close>

text \<open>The engine power lines of \<open>update\<close>; \<open>controlled\<close> is
  \<open>this.controllingCharacter !== undefined\<close>. Each branch is two \<open>if\<close> statements in
  a row, the second reading what the first wrote.\<close>
definition enginePowerStep :: "bool \<Rightarrow> real \<Rightarrow> real \<Rightarrow> real" where
  "enginePowerStep controlled timeStep p =
     (if controlled then
        (let p1 = (if p < 1 then p + timeStep * 0.4 else p)
         in if p1 > 1 then 1 else p1)
      else
        (let p1 = (if p > 0 then p - timeStep * 0.12 else p)
         in if p1 < 0 then 0 else p1))"

definition steeringTarget :: "nat \<Rightarrow> airplane_actions \<Rightarrow> real" where
  "steeringTarget wheels a =
     (if wheels > 0 then
        (if (isPressed (yawLeft a) \<or> isPressed (rollLeft a))
            \<and> \<not> isPressed (yawRight a) \<and> \<not> isPressed (rollRight a) then 0.8
         else if (isPressed (yawRight a) \<or> isPressed (rollRight a))
            \<and> \<not> isPressed (yawLeft a) \<and> \<not> isPressed (rollLeft a) then - 0.8
         else 0)
      else 0)"

definition partsRotationAmount :: real where
  "partsRotationAmount = 0.7"

definition aileronTarget :: "airplane_actions \<Rightarrow> real" where
  "aileronTarget a =
     (if isPressed (rollLeft a) \<and> \<not> isPressed (rollRight a) then partsRotationAmount
      else if \<not> isPressed (rollLeft a) \<and> isPressed (rollRight a) then - partsRotationAmount
      else 0)"

definition elevatorTarget :: "airplane_actions \<Rightarrow> real" where
  "elevatorTarget a =
     (if isPressed (pitchUp a) \<and> \<not> isPressed (pitchDown a) then partsRotationAmount
      else if \<not> isPressed (pitchUp a) \<and> isPressed (pitchDown a) then - partsRotationAmount
      else 0)"

definition rudderTarget :: "airplane_actions \<Rightarrow> real" where
  "rudderTarget a =
     (if isPressed (yawLeft a) \<and> \<not> isPressed (yawRight a) then partsRotationAmount
      else if \<not> isPressed (yawLeft a) \<and> isPressed (yawRight a) then - partsRotationAmount
      else 0)"

text \<open>Modelled from the spec: \<open>SpringSimulator.simulate\<close>
  (\<open>physics/spring_simulation/SpringSimulator\<close> is not among the sources). It advances
  \<open>position\<close> and the simulator's velocity toward \<open>target\<close> and leaves \<open>target\<close> as it
  is; the integration is the parameter \<open>step\<close>, which returns the new position and
  velocity.\<close>
definition simulate ::
  "(real \<Rightarrow> SpringSimulator \<Rightarrow> real \<times> real) \<Rightarrow> real \<Rightarrow> SpringSimulator \<Rightarrow> SpringSimulator" where
  "simulate step timeStep s =
     (case step timeStep s of (p, v) \<Rightarrow> s\<lparr>position := p, spring_velocity := v\<rparr>)"

text \<open>\<open>update\<close>, in the order of the source: engine power, steering target and its
  simulation, the three surface targets, their simulations. The writes to the scene
  (rotor, wheels, surfaces) and \<open>super.update\<close> touch none of these fields and are left
  out.\<close>
definition update ::
  "(real \<Rightarrow> SpringSimulator \<Rightarrow> real \<times> real) \<Rightarrow> real \<Rightarrow> airplane \<Rightarrow> airplane" where
  "update step timeStep this =
     (let this1 = this\<lparr>enginePower :=
                   enginePowerStep (controllingCharacter this \<noteq> None) timeStep (enginePower this)\<rparr>;
          this2 = this1\<lparr>steeringSimulator := (steeringSimulator this1)
                   \<lparr>target := steeringTarget (numWheelsOnGround this1) (actions this1)\<rparr>\<rparr>;
          this3 = this2\<lparr>steeringSimulator := simulate step timeStep (steeringSimulator this2)\<rparr>;
          this4 = this3\<lparr>aileronSimulator := (aileronSimulator this3)
                   \<lparr>target := aileronTarget (actions this3)\<rparr>\<rparr>;
          this5 = this4\<lparr>elevatorSimulator := (elevatorSimulator this4)
                   \<lparr>target := elevatorTarget (actions this4)\<rparr>\<rparr>;
          this6 = this5\<lparr>rudderSimulator := (rudderSimulator this5)
                   \<lparr>target := rudderTarget (actions this5)\<rparr>\<rparr>;
          this7 = this6\<lparr>aileronSimulator := simulate step timeStep (aileronSimulator this6)\<rparr>;
          this8 = this7\<lparr>elevatorSimulator := simulate step timeStep (elevatorSimulator this7)\<rparr>
      in this8\<lparr>rudderSimulator := simulate step timeStep (rudderSimulator this8)\<rparr>)"

text \<open>A sequence of update ticks. Between two ticks the world may seat or unseat the
  controlling character; a tick is that value together with the tick's \<open>timeStep\<close>.\<close>
fun run_ticks ::
  "(real \<Rightarrow> SpringSimulator \<Rightarrow> real \<times> real) \<Rightarrow> (nat option \<times> real) list \<Rightarrow> airplane \<Rightarrow> airplane" where
  "run_ticks step [] this = this"
| "run_ticks step ((c, timeStep) # ticks) this =
     run_ticks step ticks (update step timeStep (this\<lparr>controllingCharacter := c\<rparr>))"

text \<open>The tie-break rule in the words of the specification: exactly one of an opposing
  pair pressed gives plus or minus the deflection magnitude, both or neither gives 0.\<close>
definition tie_break :: "real \<Rightarrow> bool \<Rightarrow> bool \<Rightarrow> real" where
  "tie_break magnitude pos neg =
     (if pos \<and> \<not> neg then magnitude else if neg \<and> \<not> pos then - magnitude else 0)"

subsection \<open>\<open>physicsPreStep\<close>: the force model\<close>

definition alphaMax :: real where
  "alphaMax = 0.35"

definition wingS :: real where
  "wingS = 0.7"

definition mid :: vec3 where
  "mid = Vec3 0 0 0"

definition height :: real where
  "height = 0"

definition dynamicPressure :: "real \<Rightarrow> real" where
  "dynamicPressure squareSpeed = squareSpeed * 1.225 * (exp 1 powr (- 0.000141 * height)) * 0.5"

text \<open>The arguments of the two calls of \<open>Math.asin\<close>.\<close>
definition betaAsinArg :: "vec3 \<Rightarrow> real" where
  "betaAsinArg v = vx v / vlength v"

definition alphaAsinArg :: "(real \<Rightarrow> real) \<Rightarrow> real \<Rightarrow> vec3 \<Rightarrow> real" where
  "alphaAsinArg cosf \<beta> v = vy v / (vlength v * cosf \<beta>)"

definition betaWith :: "(real \<Rightarrow> real) \<Rightarrow> vec3 \<Rightarrow> real" where
  "betaWith asinf v = (if vlength v > 0.5 then asinf (betaAsinArg v) else 0)"

definition alphaWith :: "(real \<Rightarrow> real) \<Rightarrow> (real \<Rightarrow> real) \<Rightarrow> vec3 \<Rightarrow> real" where
  "alphaWith asinf cosf v =
     (if vlength v > 0.5 then - asinf (alphaAsinArg cosf (betaWith asinf v) v) else 0)"

definition beta :: "vec3 \<Rightarrow> real" where
  "beta v = betaWith arcsin v"

definition alpha :: "vec3 \<Rightarrow> real" where
  "alpha v = alphaWith arcsin cos v"

definition liftCoef :: "real \<Rightarrow> real" where
  "liftCoef \<alpha> =
     (if \<bar>\<alpha>\<bar> < alphaMax then 4.3 * \<alpha>
      else if \<alpha> \<le> - alphaMax \<and> \<alpha> > - 0.7 then - 4.3 * \<alpha> - 3.1
      else if \<alpha> \<ge> alphaMax \<and> \<alpha> < 0.7 then - 4.3 * \<alpha> + 3.1
      else 0)"

definition cL0 :: real where
  "cL0 = 0.5"

definition dragCoef :: "real \<Rightarrow> real" where
  "dragCoef \<alpha> =
     (if \<bar>\<alpha>\<bar> < pi * 0.5 then 0.35 + \<alpha> * \<alpha>
      else 0.35 + (\<bar>\<alpha>\<bar> - pi * 0.5) * (\<bar>\<alpha>\<bar> - pi * 0.5))"

definition flowDirection :: "vec3 \<Rightarrow> vec3" where
  "flowDirection v = vnegate (vnormalize v)"

definition aeroCenterPos :: vec3 where
  "aeroCenterPos = Vec3 0 0 (- 0.1)"

definition pressCenterPos :: "nat \<Rightarrow> vec3" where
  "pressCenterPos wheels = Vec3 0 0 (if wheels > 0 then 0.2 else 0.05)"

definition pitchF :: "real \<Rightarrow> real \<Rightarrow> real" where
  "pitchF \<alpha> squareSpeed = (if \<alpha> < alphaMax then squareSpeed * 0.04 else squareSpeed * 0.02)"

definition yawF :: "real \<Rightarrow> real \<Rightarrow> real" where
  "yawF \<beta> squareSpeed = (if \<beta> < alphaMax then squareSpeed * 0.04 else squareSpeed * 0.02)"

definition trust :: "airplane_actions \<Rightarrow> real \<Rightarrow> real" where
  "trust a p =
     (if isPressed (throttle a) \<and> \<not> isPressed (brake a) then 400 * p else 0)"

text \<open>The body-local velocity, \<open>body.quaternion.inverse().vmult(body.velocity)\<close>.\<close>
definition localVelocity :: "body \<Rightarrow> vec3" where
  "localVelocity b = vmult (qinverse (quaternion b)) (velocity b)"

text \<open>The calls of \<open>body.applyLocalForce\<close> that one invocation makes, in the order of
  the source. The only caller passes \<open>this\<close> for \<open>plane\<close>, so the two are one object.\<close>
definition preStepCalls :: "body \<Rightarrow> airplane \<Rightarrow> local_force list" where
  "preStepCalls b plane =
     (let v = localVelocity b;
          currentSpeed = vlength v;
          squareSpeed = currentSpeed * currentSpeed;
          q = dynamicPressure squareSpeed;
          \<beta> = beta v;
          \<alpha> = alpha v;
          a = actions plane;
          drag = dragCoef \<alpha> * q * wingS;
          lift0 = cL0 * q * wingS;
          lift = liftCoef \<alpha> * q * wingS;
          side = \<beta> * q
      in (if isPressed (pitchUp a)
            then [(Vec3 0 (- pitchF \<alpha> squareSpeed) 0, Vec3 0 0 (- 1))] else [])
       @ (if isPressed (pitchDown a)
            then [(Vec3 0 (pitchF \<alpha> squareSpeed) 0, Vec3 0 0 (- 1))] else [])
       @ (if isPressed (yawLeft a)
            then [(Vec3 (- yawF \<beta> squareSpeed) 0 0, Vec3 0 0 (- 1))] else [])
       @ (if isPressed (yawRight a)
            then [(Vec3 (yawF \<beta> squareSpeed) 0 0, Vec3 0 0 (- 1))] else [])
       @ (if isPressed (rollLeft a)
            then [(Vec3 0 (3 * - currentSpeed) 0, Vec3 1 0 0),
                  (Vec3 0 (3 * currentSpeed) 0, Vec3 (- 1) 0 0)] else [])
       @ (if isPressed (rollRight a)
            then [(Vec3 0 (3 * currentSpeed) 0, Vec3 1 0 0),
                  (Vec3 0 (3 * - currentSpeed) 0, Vec3 (- 1) 0 0)] else [])
       @ [(Vec3 0 0 (trust a (enginePower plane)), mid),
          (vscale drag (flowDirection v), aeroCenterPos),
          (Vec3 0 (lift0 * cos \<alpha>) (lift0 * sin \<alpha>), pressCenterPos (numWheelsOnGround plane)),
          (Vec3 0 (lift * cos \<alpha>) (lift * sin \<alpha>), aeroCenterPos),
          (Vec3 (- side) 0 0, aeroCenterPos)])"

text \<open>\<open>physicsPreStep\<close> as a state transformer on the airplane and its body: the calls
  are made on the body one after the other; no statement of the source assigns to a
  field of the airplane.\<close>
definition physicsPreStep :: "body \<Rightarrow> airplane \<Rightarrow> airplane \<times> body" where
  "physicsPreStep b plane =
     (plane, foldl (\<lambda>b' (f, pt). applyLocalForce f pt b') b (preStepCalls b plane))"

subsection \<open>The two angle lines in double precision\<close>

text \<open>Rounding to the nearest integer, a tie going to the even one.\<close>
definition round_even :: "real \<Rightarrow> int" where
  "round_even y =
     (let f = \<lfloor>y\<rfloor>; r = y - of_int f
      in if r < 1 / 2 then f else if 1 / 2 < r then f + 1 else if even f then f else f + 1)"

text \<open>The distance between neighbouring doubles around \<open>x\<close>: 52 binary places below the
  leading bit of \<open>x\<close>, and \<open>2\<^sup>-\<^sup>1\<^sup>0\<^sup>7\<^sup>4\<close> in the subnormal range.\<close>
definition ulp :: "real \<Rightarrow> real" where
  "ulp x = 2 powr (of_int (max \<lfloor>log 2 \<bar>x\<bar>\<rfloor> (- 1022)) - 52)"

text \<open>The double nearest to a real number, ties to even: the result of every arithmetic
  operation and of \<open>Math.sqrt\<close> on doubles (IEEE 754). Overflow to \<open>Infinity\<close> is not
  modelled; the numbers here stay far below \<open>2\<^sup>1\<^sup>0\<^sup>2\<^sup>4\<close>.\<close>
definition binary64 :: "real \<Rightarrow> real" where
  "binary64 x = (if x = 0 then 0 else of_int (round_even (x / ulp x)) * ulp x)"

text \<open>\<open>Math.asin\<close>, with \<open>None\<close> for the result \<open>NaN\<close> that it gives outside \<open>[-1,1]\<close>, and
  \<open>Math.cos\<close>. ECMAScript asks for an approximation only; both are taken as correctly
  rounded.\<close>
definition asin64 :: "real \<Rightarrow> real option" where
  "asin64 x = (if \<bar>x\<bar> \<le> 1 then Some (binary64 (arcsin x)) else None)"

definition cos64 :: "real \<Rightarrow> real" where
  "cos64 x = binary64 (cos x)"

text \<open>\<open>velocity.length()\<close> on doubles: cannon computes
  \<open>Math.sqrt(x * x + y * y + z * z)\<close>, and each operation rounds.\<close>
definition length64 :: "vec3 \<Rightarrow> real" where
  "length64 v =
     binary64 (sqrt (binary64 (binary64 (binary64 (vx v * vx v) + binary64 (vy v * vy v))
                       + binary64 (vz v * vz v))))"

text \<open>The argument of the first \<open>Math.asin\<close>, and \<open>beta\<close>.\<close>
definition betaAsinArg64 :: "vec3 \<Rightarrow> real" where
  "betaAsinArg64 v = binary64 (vx v / length64 v)"

definition beta64 :: "vec3 \<Rightarrow> real option" where
  "beta64 v = (if length64 v > 0.5 then asin64 (betaAsinArg64 v) else Some 0)"

text \<open>The argument of the second \<open>Math.asin\<close>, and \<open>alpha\<close>. A \<open>beta\<close> that is not a
  number makes \<open>alpha\<close> not a number; a denominator 0 makes the quotient infinite or not
  a number, and \<open>Math.asin\<close> of either is not a number.\<close>
definition alphaAsinArg64 :: "real \<Rightarrow> vec3 \<Rightarrow> real" where
  "alphaAsinArg64 \<beta> v = binary64 (vy v / binary64 (length64 v * cos64 \<beta>))"

definition alpha64 :: "vec3 \<Rightarrow> real option" where
  "alpha64 v =
     (if length64 v > 0.5 then
        (case beta64 v of
           None \<Rightarrow> None
         | Some \<beta> \<Rightarrow>
             if binary64 (length64 v * cos64 \<beta>) = 0 then None
             else map_option uminus (asin64 (alphaAsinArg64 \<beta> v)))
      else Some 0)"

subsection \<open>Concrete inputs\<close>

definition released :: KeyBinding where
  "released = \<lparr>isPressed = False, justPressed = False, justReleased = False\<rparr>"

definition held :: KeyBinding where
  "held = \<lparr>isPressed = True, justPressed = False, justReleased = False\<rparr>"

definition no_input :: airplane_actions where
  "no_input = \<lparr>throttle = released, brake = released, wheelBrake = released,
     pitchUp = released, pitchDown = released, yawLeft = released, yawRight = released,
     rollLeft = released, rollRight = released, exitVehicle = released,
     seat_switch = released, view = released\<rparr>"

definition rest_spring :: SpringSimulator where
  "rest_spring = \<lparr>position = 0, spring_velocity = 0, target = 0\<rparr>"

text \<open>An airplane standing on its three wheels, engine off, nobody aboard.\<close>
definition parked :: airplane where
  "parked = \<lparr>enginePower = 0, lastDrag = 0, steeringSimulator = rest_spring,
     aileronSimulator = rest_spring, elevatorSimulator = rest_spring,
     rudderSimulator = rest_spring, actions = no_input, numWheelsOnGround = 3,
     controllingCharacter = None\<rparr>"

text \<open>The same airplane in the air at full power, throttle held.\<close>
definition cruising :: airplane where
  "cruising = parked\<lparr>enginePower := 1, actions := no_input\<lparr>throttle := held\<rparr>,
     numWheelsOnGround := 0, controllingCharacter := Some 0\<rparr>"

text \<open>A body flying straight ahead at 50 units per second, not rotated.\<close>
definition cruising_body :: body where
  "cruising_body = \<lparr>velocity = Vec3 0 0 50, quaternion = Quaternion 0 0 0 1,
     angularVelocity = Vec3 0 0 0, applied = []\<rparr>"

text \<open>A spring integration that jumps to the target at once.\<close>
definition snap :: "real \<Rightarrow> SpringSimulator \<Rightarrow> real \<times> real" where
  "snap timeStep s = (target s, 0)"

section \<open>Properties\<close>

subsection \<open>Engine power\<close>

lemma update_enginePower:
  "enginePower (update step dt this)
     = enginePowerStep (controllingCharacter this \<noteq> None) dt (enginePower this)"
  by (simp add: update_def Let_def)

lemma enginePowerStep_controlled:
  "p \<le> 1 \<Longrightarrow> 0 \<le> dt \<Longrightarrow> enginePowerStep True dt p = min 1 (p + 0.4 * dt)"
  by (auto simp add: enginePowerStep_def Let_def min_def)

lemma enginePowerStep_uncontrolled:
  "0 \<le> p \<Longrightarrow> 0 \<le> dt \<Longrightarrow> enginePowerStep False dt p = max 0 (p - 0.12 * dt)"
  by (auto simp add: enginePowerStep_def Let_def max_def)

lemma enginePowerStep_range:
  "0 \<le> p \<Longrightarrow> p \<le> 1 \<Longrightarrow> 0 \<le> dt
   \<Longrightarrow> 0 \<le> enginePowerStep c dt p \<and> enginePowerStep c dt p \<le> 1"
  by (cases c) (auto simp add: enginePowerStep_def Let_def)

lemma run_ticks_append:
  "run_ticks step (xs @ ys) this = run_ticks step ys (run_ticks step xs this)"
  by (induction xs arbitrary: this) auto

lemma run_ticks_range:
  "0 \<le> enginePower this \<Longrightarrow> enginePower this \<le> 1 \<Longrightarrow> \<forall>(c, dt) \<in> set ticks. 0 \<le> dt
   \<Longrightarrow> 0 \<le> enginePower (run_ticks step ticks this)
     \<and> enginePower (run_ticks step ticks this) \<le> 1"
proof (induction ticks arbitrary: this)
  case Nil
  then show ?case by simp
next
  case (Cons t ticks)
  obtain c dt where t: "t = (c, dt)" by (cases t)
  from Cons.prems t have dt: "0 \<le> dt" and rest: "\<forall>(c, dt) \<in> set ticks. 0 \<le> dt"
    by auto
  let ?next = "update step dt (this\<lparr>controllingCharacter := c\<rparr>)"
  have "0 \<le> enginePower ?next \<and> enginePower ?next \<le> 1"
    using enginePowerStep_range [of "enginePower this" dt "c \<noteq> None"] Cons.prems(1,2) dt
    by (simp add: update_enginePower)
  then show ?case using Cons.IH [of ?next] rest t by simp
qed

lemma sum_list_snd_nonneg:
  "\<forall>(c, dt) \<in> set ticks. (0::real) \<le> dt \<Longrightarrow> 0 \<le> sum_list (map snd ticks)"
  by (induction ticks) auto

lemma run_ticks_uncontrolled:
  "0 \<le> enginePower this \<Longrightarrow> \<forall>(c, dt) \<in> set ticks. c = None \<and> 0 \<le> dt
   \<Longrightarrow> enginePower (run_ticks step ticks this)
       = max 0 (enginePower this - 0.12 * sum_list (map snd ticks))"
proof (induction ticks arbitrary: this)
  case Nil
  then show ?case by simp
next
  case (Cons t ticks)
  obtain c dt where t: "t = (c, dt)" by (cases t)
  from Cons.prems t have c: "c = None" and dt: "0 \<le> dt"
    and rest: "\<forall>(c, dt) \<in> set ticks. c = None \<and> 0 \<le> dt" by auto
  let ?next = "update step dt (this\<lparr>controllingCharacter := c\<rparr>)"
  have nxt: "enginePower ?next = max 0 (enginePower this - 0.12 * dt)"
    using enginePowerStep_uncontrolled [of "enginePower this" dt] Cons.prems(1) dt c
    by (simp add: update_enginePower)
  have s: "0 \<le> sum_list (map snd ticks)"
    using rest by (intro sum_list_snd_nonneg) auto
  have "enginePower (run_ticks step ticks ?next)
        = max 0 (enginePower ?next - 0.12 * sum_list (map snd ticks))"
    using Cons.IH [of ?next] rest nxt by simp
  also have "\<dots> = max 0 (enginePower this - 0.12 * (dt + sum_list (map snd ticks)))"
    using s dt unfolding nxt by (auto simp add: max_def algebra_simps)
  finally show ?case using t by simp
qed

text \<open>
  C5. Take any sequence of update ticks with time steps that are not negative, started
  with the engine power in \<open>[0,1]\<close>, and one more tick after it. Before and after that
  tick the power is in \<open>[0,1]\<close>; a controlled tick adds \<open>0.4 \<sqdot> timeStep\<close> up to the
  ceiling 1, an uncontrolled tick takes \<open>0.12 \<sqdot> timeStep\<close> away down to the floor 0.
  Started at power 1 and never controlled, the power after the sequence is
  \<open>max 0 (1 - 0.12 \<sqdot> t)\<close> for the simulated time \<open>t\<close> that has passed, so it is 0
  exactly when \<open>t\<close> has reached \<open>1 / 0.12\<close> seconds, and it is never negative.
\<close>
theorem engine_power_ramp:
  assumes lo: "0 \<le> enginePower this" and hi: "enginePower this \<le> 1"
    and ts: "\<forall>(c, dt) \<in> set ticks. 0 \<le> dt" and dt: "0 \<le> dt"
  shows "(let before = enginePower (run_ticks step ticks this);
              after = enginePower (run_ticks step (ticks @ [(c, dt)]) this)
          in 0 \<le> before \<and> before \<le> 1 \<and> 0 \<le> after \<and> after \<le> 1
           \<and> after = (if c \<noteq> None then min 1 (before + 0.4 * dt)
                      else max 0 (before - 0.12 * dt)))
       \<and> (enginePower this = 1 \<and> (\<forall>(c, dt) \<in> set ticks. c = None) \<longrightarrow>
            enginePower (run_ticks step ticks this)
              = max 0 (1 - 0.12 * sum_list (map snd ticks))
          \<and> (enginePower (run_ticks step ticks this) = 0
               \<longleftrightarrow> 1 / 0.12 \<le> sum_list (map snd ticks)))"
proof -
  let ?mid = "run_ticks step ticks this"
  have r: "0 \<le> enginePower ?mid \<and> enginePower ?mid \<le> 1"
    using run_ticks_range [OF lo hi ts] .
  have a: "enginePower (run_ticks step (ticks @ [(c, dt)]) this)
           = enginePowerStep (c \<noteq> None) dt (enginePower ?mid)"
    by (simp add: run_ticks_append update_enginePower)
  have a2: "enginePowerStep (c \<noteq> None) dt (enginePower ?mid)
           = (if c \<noteq> None then min 1 (enginePower ?mid + 0.4 * dt)
              else max 0 (enginePower ?mid - 0.12 * dt))"
    using r dt enginePowerStep_controlled [of "enginePower ?mid" dt]
      enginePowerStep_uncontrolled [of "enginePower ?mid" dt] by simp
  have a3: "0 \<le> enginePowerStep (c \<noteq> None) dt (enginePower ?mid)
          \<and> enginePowerStep (c \<noteq> None) dt (enginePower ?mid) \<le> 1"
    using enginePowerStep_range r dt by blast
  have first: "(let before = enginePower (run_ticks step ticks this);
              after = enginePower (run_ticks step (ticks @ [(c, dt)]) this)
          in 0 \<le> before \<and> before \<le> 1 \<and> 0 \<le> after \<and> after \<le> 1
           \<and> after = (if c \<noteq> None then min 1 (before + 0.4 * dt)
                      else max 0 (before - 0.12 * dt)))"
    unfolding Let_def a using r a2 a3 by blast
  have second: "enginePower (run_ticks step ticks this)
              = max 0 (1 - 0.12 * sum_list (map snd ticks))
          \<and> (enginePower (run_ticks step ticks this) = 0
               \<longleftrightarrow> 1 / 0.12 \<le> sum_list (map snd ticks))"
    if one: "enginePower this = 1" and unc: "\<forall>(c, dt) \<in> set ticks. c = None"
  proof -
    have "\<forall>(c, dt) \<in> set ticks. c = None \<and> 0 \<le> dt" using ts unc by auto
    then have e: "enginePower (run_ticks step ticks this)
                  = max 0 (1 - 0.12 * sum_list (map snd ticks))"
      using run_ticks_uncontrolled [of this ticks step] one by simp
    show ?thesis unfolding e by (auto simp add: max_def)
  qed
  show ?thesis using first second by blast
qed

text \<open>The parked airplane with its engine at full power, left alone for two ticks of
  five seconds, has no power left; seating a character for one second then brings the
  power to 0.4.\<close>
theorem engine_power_ramp_witness:
  "enginePower (parked\<lparr>enginePower := 1\<rparr>) = 1
 \<and> enginePower (run_ticks snap [(None, 5), (None, 5)] (parked\<lparr>enginePower := 1\<rparr>)) = 0
 \<and> enginePower (run_ticks snap ([(None, 5), (None, 5)] @ [(Some 7, 1)])
      (parked\<lparr>enginePower := 1\<rparr>)) = 0.4"
proof -
  have h: "0 \<le> enginePower (parked\<lparr>enginePower := 1\<rparr>)"
    "enginePower (parked\<lparr>enginePower := 1\<rparr>) \<le> 1"
    "\<forall>(c, dt) \<in> set [(None :: nat option, 5 :: real), (None, 5)]. 0 \<le> dt"
    "(0::real) \<le> 1"
    by simp_all
  have u: "enginePower (parked\<lparr>enginePower := 1\<rparr>) = 1
     \<and> (\<forall>(c, dt) \<in> set [(None :: nat option, 5 :: real), (None, 5)]. c = None)"
    by simp
  show ?thesis
    using engine_power_ramp [OF h, of snap "Some 7"] u
    by (simp add: Let_def)
qed

subsection \<open>Spring targets\<close>

lemma update_targets:
  "target (steeringSimulator (update step dt this))
     = steeringTarget (numWheelsOnGround this) (actions this)"
  "target (aileronSimulator (update step dt this)) = aileronTarget (actions this)"
  "target (elevatorSimulator (update step dt this)) = elevatorTarget (actions this)"
  "target (rudderSimulator (update step dt this)) = rudderTarget (actions this)"
  by (simp_all add: update_def Let_def simulate_def split: prod.splits)

text \<open>
  C3, as the code has it. After an update tick the aileron, elevator and rudder targets
  follow the tie-break rule on their own pair, with the magnitude 0.7. The steering
  target does not follow it on a pair: on the ground it is the rule with the magnitude
  0.8 applied to "some left action" (yaw left or roll left) against "some right action"
  (yaw right or roll right), and with no wheel on the ground it is 0.
\<close>
theorem spring_targets_after_update:
  "target (aileronSimulator (update step dt this))
     = tie_break 0.7 (isPressed (rollLeft (actions this))) (isPressed (rollRight (actions this)))
 \<and> target (elevatorSimulator (update step dt this))
     = tie_break 0.7 (isPressed (pitchUp (actions this))) (isPressed (pitchDown (actions this)))
 \<and> target (rudderSimulator (update step dt this))
     = tie_break 0.7 (isPressed (yawLeft (actions this))) (isPressed (yawRight (actions this)))
 \<and> target (steeringSimulator (update step dt this))
     = (if numWheelsOnGround this > 0
        then tie_break 0.8
               (isPressed (yawLeft (actions this)) \<or> isPressed (rollLeft (actions this)))
               (isPressed (yawRight (actions this)) \<or> isPressed (rollRight (actions this)))
        else 0)"
  by (simp add: update_targets steeringTarget_def aileronTarget_def elevatorTarget_def
      rudderTarget_def partsRotationAmount_def tie_break_def)

text \<open>
  C3 as it is stated fails for the steering axis. On the ground, with yaw left and roll
  right held, exactly one action of the yaw pair and exactly one of the roll pair is
  pressed, yet the steering target is 0: it is the rule's value for neither pair.
\<close>
theorem steering_tie_break_counterexample:
  "0 < numWheelsOnGround (parked\<lparr>actions := no_input\<lparr>yawLeft := held, rollRight := held\<rparr>\<rparr>)
 \<and> target (steeringSimulator (update snap (1 / 60)
      (parked\<lparr>actions := no_input\<lparr>yawLeft := held, rollRight := held\<rparr>\<rparr>))) = 0
 \<and> tie_break 0.8
      (isPressed (yawLeft (no_input\<lparr>yawLeft := held, rollRight := held\<rparr>)))
      (isPressed (yawRight (no_input\<lparr>yawLeft := held, rollRight := held\<rparr>))) = 0.8
 \<and> tie_break 0.8
      (isPressed (rollLeft (no_input\<lparr>yawLeft := held, rollRight := held\<rparr>)))
      (isPressed (rollRight (no_input\<lparr>yawLeft := held, rollRight := held\<rparr>))) = - 0.8"
  by (simp add: update_targets steeringTarget_def tie_break_def parked_def no_input_def
      held_def released_def)

text \<open>
  C7. On an update tick with no wheel on the ground the steering target is set to 0,
  whatever is pressed; if yaw left is pressed and yaw right is not, the rudder target of
  the same tick is the deflection magnitude 0.7, which is not 0.
\<close>
theorem airborne_steering_neutral:
  assumes "numWheelsOnGround this = 0"
  shows "target (steeringSimulator (update step dt this)) = 0
       \<and> (isPressed (yawLeft (actions this)) \<and> \<not> isPressed (yawRight (actions this)) \<longrightarrow>
            target (rudderSimulator (update step dt this)) = 0.7
          \<and> target (rudderSimulator (update step dt this)) \<noteq> 0)"
  using assms
  by (simp add: update_targets steeringTarget_def rudderTarget_def partsRotationAmount_def)

theorem airborne_steering_neutral_witness:
  "numWheelsOnGround (cruising\<lparr>actions := no_input\<lparr>yawLeft := held\<rparr>\<rparr>) = 0
 \<and> isPressed (yawLeft (actions (cruising\<lparr>actions := no_input\<lparr>yawLeft := held\<rparr>\<rparr>)))
 \<and> \<not> isPressed (yawRight (actions (cruising\<lparr>actions := no_input\<lparr>yawLeft := held\<rparr>\<rparr>)))
 \<and> target (steeringSimulator
      (update snap (1 / 60) (cruising\<lparr>actions := no_input\<lparr>yawLeft := held\<rparr>\<rparr>))) = 0
 \<and> target (rudderSimulator
      (update snap (1 / 60) (cruising\<lparr>actions := no_input\<lparr>yawLeft := held\<rparr>\<rparr>))) = 0.7"
proof -
  have h: "numWheelsOnGround (cruising\<lparr>actions := no_input\<lparr>yawLeft := held\<rparr>\<rparr>) = 0"
    by (simp add: cruising_def)
  have k: "isPressed (yawLeft (actions (cruising\<lparr>actions := no_input\<lparr>yawLeft := held\<rparr>\<rparr>)))
     \<and> \<not> isPressed (yawRight (actions (cruising\<lparr>actions := no_input\<lparr>yawLeft := held\<rparr>\<rparr>)))"
    by (simp add: no_input_def held_def released_def)
  show ?thesis
    using airborne_steering_neutral [OF h, of snap "1 / 60"] h k by blast
qed

subsection \<open>Speed, sideslip and angle of attack\<close>

text \<open>
  C6. For a body-local velocity of magnitude below 0.5, whatever its direction, the
  sideslip and the angle of attack are 0. Neither \<open>Math.asin\<close> nor \<open>Math.cos\<close> nor a
  division takes part: the result is 0 for every function put in their place.
\<close>
theorem slow_angles_zero:
  assumes "vlength v < 0.5"
  shows "betaWith asinf v = 0 \<and> alphaWith asinf cosf v = 0 \<and> beta v = 0 \<and> alpha v = 0"
  using assms by (simp add: betaWith_def alphaWith_def beta_def alpha_def)

text \<open>Sideways at 0.3 units per second, and at rest: without the guard the first
  quotient would be 1, respectively \<open>0 / 0\<close>.\<close>
theorem slow_angles_zero_witness:
  "vlength (Vec3 0.3 0 0) < 0.5
 \<and> beta (Vec3 0.3 0 0) = 0 \<and> alpha (Vec3 0.3 0 0) = 0
 \<and> vlength (Vec3 0 0 0) < 0.5
 \<and> beta (Vec3 0 0 0) = 0 \<and> alpha (Vec3 0 0 0) = 0"
proof -
  have "sqrt (9 / 100) = 3 / 10"
    by (rule real_sqrt_unique) (simp_all add: power2_eq_square)
  then have a: "vlength (Vec3 0.3 0 0) < 0.5"
    by (simp add: vlength_def)
  have b: "vlength (Vec3 0 0 0) < 0.5"
    by (simp add: vlength_def)
  show ?thesis
    using slow_angles_zero [OF a] slow_angles_zero [OF b] a b by blast
qed

lemma dynamicPressure_eq: "dynamicPressure s2 = s2 * 0.6125"
  by (simp add: dynamicPressure_def height_def)

lemma beta_forward: "0 < s \<Longrightarrow> beta (Vec3 0 0 s) = 0"
  by (simp add: beta_def betaWith_def betaAsinArg_def)

lemma alpha_forward: "0 < s \<Longrightarrow> alpha (Vec3 0 0 s) = 0"
  by (simp add: alpha_def alphaWith_def alphaAsinArg_def)

lemma liftCoef_0: "liftCoef 0 = 0"
  by (simp add: liftCoef_def alphaMax_def)

lemma dragCoef_0: "dragCoef 0 = 0.35"
  by (simp add: dragCoef_def)

lemma flowDirection_forward: "0 < s \<Longrightarrow> flowDirection (Vec3 0 0 s) = Vec3 0 0 (- 1)"
  by (simp add: flowDirection_def vnormalize_def vnegate_def vscale_def vlength_def)

text \<open>
  C1. With the body-local velocity \<open>(0, 0, 50)\<close>, no pitch, yaw or roll action pressed,
  throttle pressed, brake not pressed and engine power 1: sideslip and angle of attack
  are 0, the angle-dependent lift coefficient is 0, the drag coefficient is 0.35 and the
  thrust is \<open>400 \<sqdot> 1\<close>. The invocation makes five calls: thrust 400 forward at the
  centre, the drag, the baseline lift, and a zero angle-dependent lift and side force.
\<close>
theorem forward_flight_scenario:
  assumes v: "localVelocity b = Vec3 0 0 50"
    and nopitch: "\<not> isPressed (pitchUp (actions plane))"
      "\<not> isPressed (pitchDown (actions plane))"
    and noyaw: "\<not> isPressed (yawLeft (actions plane))"
      "\<not> isPressed (yawRight (actions plane))"
    and noroll: "\<not> isPressed (rollLeft (actions plane))"
      "\<not> isPressed (rollRight (actions plane))"
    and thr: "isPressed (throttle (actions plane))" "\<not> isPressed (brake (actions plane))"
    and pw: "enginePower plane = 1"
  shows "beta (localVelocity b) = 0 \<and> alpha (localVelocity b) = 0
     \<and> liftCoef (alpha (localVelocity b)) = 0
     \<and> dragCoef (alpha (localVelocity b)) = 0.35
     \<and> trust (actions plane) (enginePower plane) = 400 * 1
     \<and> preStepCalls b plane =
         [(Vec3 0 0 400, mid),
          (Vec3 0 0 (- 375.15625), aeroCenterPos),
          (Vec3 0 535.9375 0, pressCenterPos (numWheelsOnGround plane)),
          (Vec3 0 0 0, aeroCenterPos),
          (Vec3 0 0 0, aeroCenterPos)]"
proof -
  have b: "beta (Vec3 0 0 50) = 0" by (rule beta_forward) simp
  have a: "alpha (Vec3 0 0 50) = 0" by (rule alpha_forward) simp
  have f: "flowDirection (Vec3 0 0 50) = Vec3 0 0 (- 1)"
    by (rule flowDirection_forward) simp
  have l: "vlength (Vec3 0 0 50) = 50" by (simp add: vlength_def)
  have t: "trust (actions plane) (enginePower plane) = 400"
    using thr pw by (simp add: trust_def)
  have calls: "preStepCalls b plane =
         [(Vec3 0 0 400, mid),
          (Vec3 0 0 (- 375.15625), aeroCenterPos),
          (Vec3 0 535.9375 0, pressCenterPos (numWheelsOnGround plane)),
          (Vec3 0 0 0, aeroCenterPos),
          (Vec3 0 0 0, aeroCenterPos)]"
    unfolding preStepCalls_def Let_def v
    using nopitch noyaw noroll
    by (simp add: a b f l t liftCoef_0 dragCoef_0 dynamicPressure_eq wingS_def cL0_def
        vscale_def)
  show ?thesis unfolding v using a b t calls by (simp add: liftCoef_0 dragCoef_0)
qed

lemma localVelocity_cruising_body: "localVelocity cruising_body = Vec3 0 0 50"
  by (simp add: localVelocity_def cruising_body_def qinverse_def vmult_def)

theorem forward_flight_scenario_witness:
  "localVelocity cruising_body = Vec3 0 0 50
 \<and> isPressed (throttle (actions cruising)) \<and> \<not> isPressed (brake (actions cruising))
 \<and> enginePower cruising = 1
 \<and> beta (localVelocity cruising_body) = 0 \<and> alpha (localVelocity cruising_body) = 0
 \<and> liftCoef (alpha (localVelocity cruising_body)) = 0
 \<and> dragCoef (alpha (localVelocity cruising_body)) = 0.35
 \<and> trust (actions cruising) (enginePower cruising) = 400 * 1
 \<and> preStepCalls cruising_body cruising =
         [(Vec3 0 0 400, Vec3 0 0 0),
          (Vec3 0 0 (- 375.15625), Vec3 0 0 (- 0.1)),
          (Vec3 0 535.9375 0, Vec3 0 0 0.05),
          (Vec3 0 0 0, Vec3 0 0 (- 0.1)),
          (Vec3 0 0 0, Vec3 0 0 (- 0.1))]"
proof -
  have keys: "\<not> isPressed (pitchUp (actions cruising))"
    "\<not> isPressed (pitchDown (actions cruising))"
    "\<not> isPressed (yawLeft (actions cruising))"
    "\<not> isPressed (yawRight (actions cruising))"
    "\<not> isPressed (rollLeft (actions cruising))"
    "\<not> isPressed (rollRight (actions cruising))"
    "isPressed (throttle (actions cruising))"
    "\<not> isPressed (brake (actions cruising))"
    by (simp_all add: cruising_def no_input_def held_def released_def)
  have pw: "enginePower cruising = 1" and air: "numWheelsOnGround cruising = 0"
    by (simp_all add: cruising_def)
  note r = forward_flight_scenario [OF localVelocity_cruising_body keys pw]
  from r have "preStepCalls cruising_body cruising =
         [(Vec3 0 0 400, mid),
          (Vec3 0 0 (- 375.15625), aeroCenterPos),
          (Vec3 0 535.9375 0, pressCenterPos (numWheelsOnGround cruising)),
          (Vec3 0 0 0, aeroCenterPos),
          (Vec3 0 0 0, aeroCenterPos)]"
    by blast
  then have calls: "preStepCalls cruising_body cruising =
         [(Vec3 0 0 400, Vec3 0 0 0),
          (Vec3 0 0 (- 375.15625), Vec3 0 0 (- 0.1)),
          (Vec3 0 535.9375 0, Vec3 0 0 0.05),
          (Vec3 0 0 0, Vec3 0 0 (- 0.1)),
          (Vec3 0 0 0, Vec3 0 0 (- 0.1))]"
    by (simp add: air mid_def aeroCenterPos_def pressCenterPos_def)
  show ?thesis
    using r calls keys pw localVelocity_cruising_body by blast
qed

subsection \<open>Lift coefficient\<close>

lemma alpha_up: "alpha (Vec3 0 1 0) = - (pi / 2)"
proof -
  have "beta (Vec3 0 1 0) = 0"
    by (simp add: beta_def betaWith_def betaAsinArg_def)
  then show ?thesis
    by (simp add: alpha_def alphaWith_def alphaAsinArg_def vlength_def beta_def)
qed

text \<open>
  C9. For every angle of attack with \<open>\<bar>\<alpha>\<bar> \<ge> 0.7\<close> the angle-dependent lift coefficient
  is 0, so the angle-dependent lift is 0 at any dynamic pressure, and what is left of the
  lift is the baseline term with \<open>cL0 = 0.5\<close>.
\<close>
theorem deep_stall_lift_zero:
  assumes "\<bar>\<alpha>\<bar> \<ge> 0.7"
  shows "liftCoef \<alpha> = 0 \<and> liftCoef \<alpha> * q * wingS = 0
       \<and> cL0 = 0.5 \<and> cL0 * q * wingS = 0.5 * q * 0.7"
  using assms by (auto simp add: liftCoef_def alphaMax_def cL0_def wingS_def)

text \<open>Moving straight up in the body frame the angle of attack is \<open>- \<pi> / 2\<close>, in deep
  stall.\<close>
theorem deep_stall_lift_zero_witness:
  "\<bar>alpha (Vec3 0 1 0)\<bar> \<ge> 0.7 \<and> liftCoef (alpha (Vec3 0 1 0)) = 0"
proof -
  have "pi / 2 \<ge> 0.7" using pi_ge_two by simp
  then have h: "\<bar>alpha (Vec3 0 1 0)\<bar> \<ge> 0.7"
    by (simp add: alpha_up)
  show ?thesis
    using deep_stall_lift_zero [OF h] h by blast
qed

lemma liftCoef_at_alphaMax: "liftCoef alphaMax = 1.595"
  by (simp add: liftCoef_def alphaMax_def)

lemma liftCoef_at_minus_alphaMax: "liftCoef (- alphaMax) = - 1.595"
  by (simp add: liftCoef_def alphaMax_def)

lemma liftCoef_left_limit: "(liftCoef \<longlongrightarrow> 1.505) (at_left alphaMax)"
proof -
  have lin: "((\<lambda>\<alpha>. 4.3 * \<alpha>) \<longlongrightarrow> 4.3 * alphaMax) (at_left alphaMax)"
    by (intro tendsto_intros)
  have ev: "eventually (\<lambda>\<alpha>. 4.3 * \<alpha> = liftCoef \<alpha>) (at_left alphaMax)"
    unfolding eventually_at_left_field
    by (rule exI [of _ 0]) (auto simp add: liftCoef_def alphaMax_def)
  have "(liftCoef \<longlongrightarrow> 4.3 * alphaMax) (at_left alphaMax)"
    using Lim_transform_eventually [OF lin ev] .
  then show ?thesis by (simp add: alphaMax_def)
qed

lemma liftCoef_right_limit: "(liftCoef \<longlongrightarrow> - 1.505) (at_right (- alphaMax))"
proof -
  have lin: "((\<lambda>\<alpha>. 4.3 * \<alpha>) \<longlongrightarrow> 4.3 * (- alphaMax)) (at_right (- alphaMax))"
    by (intro tendsto_intros)
  have ev: "eventually (\<lambda>\<alpha>. 4.3 * \<alpha> = liftCoef \<alpha>) (at_right (- alphaMax))"
    unfolding eventually_at_right_field
    by (rule exI [of _ 0]) (auto simp add: liftCoef_def alphaMax_def)
  have "(liftCoef \<longlongrightarrow> 4.3 * (- alphaMax)) (at_right (- alphaMax))"
    using Lim_transform_eventually [OF lin ev] .
  then show ?thesis by (simp add: alphaMax_def)
qed

lemma liftCoef_not_cont_pos: "\<not> isCont liftCoef alphaMax"
proof
  assume "isCont liftCoef alphaMax"
  then have "(liftCoef \<longlongrightarrow> liftCoef alphaMax) (at_left alphaMax)"
    by (simp add: isCont_def filterlim_at_split)
  then have "liftCoef alphaMax = 1.505"
    using liftCoef_left_limit tendsto_unique trivial_limit_at_left_real by blast
  then show False by (simp add: liftCoef_at_alphaMax)
qed

lemma liftCoef_not_cont_neg: "\<not> isCont liftCoef (- alphaMax)"
proof
  assume "isCont liftCoef (- alphaMax)"
  then have "(liftCoef \<longlongrightarrow> liftCoef (- alphaMax)) (at_right (- alphaMax))"
    by (simp add: isCont_def filterlim_at_split)
  then have "liftCoef (- alphaMax) = - 1.505"
    using liftCoef_right_limit tendsto_unique trivial_limit_at_right_real by blast
  then show False by (simp add: liftCoef_at_minus_alphaMax)
qed

text \<open>
  C10. The lift coefficient jumps at \<open>\<plusminus> alphaMax\<close>, \<open>alphaMax = 0.35\<close>. From below
  \<open>alphaMax\<close> it tends to \<open>4.3 \<sqdot> 0.35 = 1.505\<close>; at \<open>alphaMax\<close> the stall branch gives
  \<open>- 4.3 \<sqdot> 0.35 + 3.1 = 1.595\<close>, which is 0.09 more. Symmetrically it tends to
  \<open>- 1.505\<close> from above \<open>- alphaMax\<close> and is \<open>- 1.595\<close> there. It is continuous at
  neither point.
\<close>
theorem lift_coefficient_jump:
  "alphaMax = 0.35
 \<and> (liftCoef \<longlongrightarrow> 4.3 * 0.35) (at_left alphaMax) \<and> 4.3 * 0.35 = (1.505::real)
 \<and> liftCoef alphaMax = - 4.3 * 0.35 + 3.1 \<and> liftCoef alphaMax = 1.595
 \<and> liftCoef alphaMax - 1.505 = 0.09
 \<and> (liftCoef \<longlongrightarrow> - 1.505) (at_right (- alphaMax))
 \<and> liftCoef (- alphaMax) = - 1.595
 \<and> \<not> isCont liftCoef alphaMax \<and> \<not> isCont liftCoef (- alphaMax)"
proof -
  have l: "(liftCoef \<longlongrightarrow> 4.3 * 0.35) (at_left alphaMax)"
    using liftCoef_left_limit by simp
  have v: "liftCoef alphaMax = - 4.3 * 0.35 + 3.1" "liftCoef alphaMax - 1.505 = 0.09"
    by (simp_all add: liftCoef_at_alphaMax)
  show ?thesis
    by (intro conjI alphaMax_def l v liftCoef_at_alphaMax liftCoef_right_limit
        liftCoef_at_minus_alphaMax liftCoef_not_cont_pos liftCoef_not_cont_neg) simp
qed

subsection \<open>Pitch and yaw control forces\<close>

lemma arcsin_inv_sqrt2: "arcsin (1 / sqrt 2) = pi / 4"
proof -
  have "sin (pi / 4) = 1 / sqrt 2"
    by (simp add: sin_45 real_div_sqrt)
  moreover have "- (pi / 2) \<le> pi / 4" "pi / 4 \<le> pi / 2"
    using pi_gt_zero by simp_all
  ultimately show ?thesis
    using arcsin_sin [of "pi / 4"] by simp
qed

lemma vlength_011: "vlength (Vec3 0 1 1) = sqrt 2"
  by (simp add: vlength_def)

lemma vlength_m101: "vlength (Vec3 (- 1) 0 1) = sqrt 2"
  by (simp add: vlength_def)

lemma sqrt2_gt_half: "sqrt 2 > 0.5"
proof -
  have "1 < sqrt 2" by simp
  then have "1 < sqrt 2 * 2" by linarith
  then show ?thesis by simp
qed

lemma beta_011: "beta (Vec3 0 1 1) = 0"
  by (simp add: beta_def betaWith_def betaAsinArg_def)

lemma alpha_011: "alpha (Vec3 0 1 1) = - (pi / 4)"
  using sqrt2_gt_half beta_011
  by (simp add: alpha_def alphaWith_def alphaAsinArg_def vlength_011 arcsin_inv_sqrt2
      beta_def)

lemma beta_m101: "beta (Vec3 (- 1) 0 1) = - (pi / 4)"
proof -
  have "1 / sqrt 2 \<le> 1" by simp
  moreover have "- 1 \<le> 1 / sqrt 2"
    by (rule order_trans [of _ 0]) simp_all
  ultimately have "arcsin (- (1 / sqrt 2)) = - (pi / 4)"
    using arcsin_minus [of "1 / sqrt 2"] arcsin_inv_sqrt2 by simp
  then have "arcsin (- 1 / sqrt 2) = - (pi / 4)" by simp
  then show ?thesis
    using sqrt2_gt_half
    by (simp add: beta_def betaWith_def betaAsinArg_def vlength_m101)
qed

lemma quarter_pi_ge_alphaMax: "alphaMax \<le> pi / 4"
  using pi_ge_two by (simp add: alphaMax_def)

text \<open>What the code selects by: the signed angle.\<close>
lemma pitchF_signed:
  "pitchF \<alpha> s2 = (if \<alpha> < 0.35 then s2 * 0.04 else s2 * 0.02)"
  "yawF \<beta> s2 = (if \<beta> < 0.35 then s2 * 0.04 else s2 * 0.02)"
  by (simp_all add: pitchF_def yawF_def alphaMax_def)

text \<open>
  C4 at two velocities. Descending at 45 degrees in the body frame, \<open>(0, 1, 1)\<close>, the
  angle of attack is \<open>- \<pi> / 4\<close>, beyond \<open>alphaMax\<close> in absolute value, and the pitch force
  still has the full constant 0.04. Slipping at 45 degrees, \<open>(- 1, 0, 1)\<close>, the sideslip
  is \<open>- \<pi> / 4\<close> and the yaw force has the full constant 0.04 as well.
\<close>
theorem control_force_negative_angle:
  "alpha (Vec3 0 1 1) = - (pi / 4) \<and> alphaMax \<le> \<bar>alpha (Vec3 0 1 1)\<bar>
 \<and> pitchF (alpha (Vec3 0 1 1)) (vlength (Vec3 0 1 1) * vlength (Vec3 0 1 1))
     = vlength (Vec3 0 1 1) * vlength (Vec3 0 1 1) * 0.04
 \<and> beta (Vec3 (- 1) 0 1) = - (pi / 4) \<and> alphaMax \<le> \<bar>beta (Vec3 (- 1) 0 1)\<bar>
 \<and> yawF (beta (Vec3 (- 1) 0 1)) (vlength (Vec3 (- 1) 0 1) * vlength (Vec3 (- 1) 0 1))
     = vlength (Vec3 (- 1) 0 1) * vlength (Vec3 (- 1) 0 1) * 0.04"
  using quarter_pi_ge_alphaMax pi_gt_zero
  by (simp add: alpha_011 beta_m101 pitchF_def yawF_def alphaMax_def)

subsection \<open>The pre-step hook reads kinematics, actions, wheels and power only\<close>

lemma applied_foldl:
  "applied (foldl (\<lambda>b' (f, pt). applyLocalForce f pt b') b calls) = applied b @ calls"
  by (induction calls arbitrary: b) (auto simp add: applyLocalForce_def)

text \<open>
  C8. Two invocations whose bodies agree on velocity and quaternion and whose airplanes
  agree on the control actions, the wheel count and the engine power make the same calls
  of \<open>applyLocalForce\<close>, the same forces at the same points in the same order, whatever
  the other fields hold; each body receives exactly these calls, and each airplane is
  after the invocation what it was before.
\<close>
theorem pre_step_pure:
  assumes "velocity b1 = velocity b2" and "quaternion b1 = quaternion b2"
    and "actions p1 = actions p2"
    and "numWheelsOnGround p1 = numWheelsOnGround p2"
    and "enginePower p1 = enginePower p2"
  shows "preStepCalls b1 p1 = preStepCalls b2 p2
       \<and> applied (snd (physicsPreStep b1 p1)) = applied b1 @ preStepCalls b1 p1
       \<and> applied (snd (physicsPreStep b2 p2)) = applied b2 @ preStepCalls b2 p2
       \<and> fst (physicsPreStep b1 p1) = p1 \<and> fst (physicsPreStep b2 p2) = p2"
  using assms
  by (simp add: physicsPreStep_def applied_foldl preStepCalls_def localVelocity_def)

text \<open>The cruising airplane and body against a pair that differs in every field the
  hook does not read: spin, forces already applied, last drag, spring state, occupant.\<close>
theorem pre_step_pure_witness:
  "preStepCalls cruising_body cruising
     = preStepCalls
         (cruising_body\<lparr>angularVelocity := Vec3 1 2 3, applied := [(Vec3 9 9 9, mid)]\<rparr>)
         (cruising\<lparr>lastDrag := 7, rudderSimulator := rest_spring\<lparr>position := 0.4\<rparr>,
            controllingCharacter := None\<rparr>)
 \<and> fst (physicsPreStep cruising_body cruising) = cruising
 \<and> applied (snd (physicsPreStep cruising_body cruising))
     = applied cruising_body @ preStepCalls cruising_body cruising"
proof -
  have h: "velocity cruising_body
      = velocity (cruising_body\<lparr>angularVelocity := Vec3 1 2 3, applied := [(Vec3 9 9 9, mid)]\<rparr>)"
    "quaternion cruising_body
      = quaternion (cruising_body\<lparr>angularVelocity := Vec3 1 2 3, applied := [(Vec3 9 9 9, mid)]\<rparr>)"
    "actions cruising
      = actions (cruising\<lparr>lastDrag := 7, rudderSimulator := rest_spring\<lparr>position := 0.4\<rparr>,
            controllingCharacter := None\<rparr>)"
    "numWheelsOnGround cruising
      = numWheelsOnGround (cruising\<lparr>lastDrag := 7,
            rudderSimulator := rest_spring\<lparr>position := 0.4\<rparr>, controllingCharacter := None\<rparr>)"
    "enginePower cruising
      = enginePower (cruising\<lparr>lastDrag := 7,
            rudderSimulator := rest_spring\<lparr>position := 0.4\<rparr>, controllingCharacter := None\<rparr>)"
    by simp_all
  show ?thesis
    using pre_step_pure [OF h] by blast
qed

subsection \<open>The arguments of the inverse sine, in double precision\<close>

lemma round_even_near:
  assumes "\<bar>y - of_int m\<bar> < 1 / 2"
  shows "round_even y = m"
proof (cases "of_int m \<le> y")
  case True
  with assms have "\<lfloor>y\<rfloor> = m" by (intro floor_unique) auto
  with assms True show ?thesis by (simp add: round_even_def Let_def)
next
  case False
  with assms have f: "\<lfloor>y\<rfloor> = m - 1" by (intro floor_unique) auto
  have "1 / 2 < y - of_int (m - 1)" using assms False by simp
  with f show ?thesis by (simp add: round_even_def Let_def)
qed

lemma ulp_ge1:
  assumes "2 ^ n \<le> \<bar>x\<bar>" and "\<bar>x\<bar> < 2 * 2 ^ n"
  shows "ulp x = 2 ^ n / 2 ^ 52"
proof -
  have "(0::real) < 2 ^ n" by simp
  then have pos: "0 < \<bar>x\<bar>" using assms(1) by linarith
  have "\<lfloor>log 2 \<bar>x\<bar>\<rfloor> = int n"
    using assms pos by (simp add: floor_log_eq_powr_iff powr_add powr_realpow)
  then show ?thesis
    by (simp add: ulp_def powr_diff powr_realpow)
qed

lemma ulp_lt1:
  assumes "1 / 2 ^ n \<le> \<bar>x\<bar>" and "\<bar>x\<bar> < 2 / 2 ^ n" and "n \<le> 1022"
  shows "ulp x = 1 / (2 ^ n * 2 ^ 52)"
proof -
  have "(0::real) < 1 / 2 ^ n" by simp
  then have pos: "0 < \<bar>x\<bar>" using assms(1) by linarith
  have a: "2 powr (of_int (- int n)) = (1 / 2 ^ n :: real)"
    by (simp add: powr_minus powr_realpow divide_inverse)
  have "2 powr (1 - real n) = 2 powr 1 / 2 powr real n"
    by (rule powr_diff)
  then have b: "2 powr (of_int (- int n + 1)) = (2 / 2 ^ n :: real)"
    by (simp add: powr_realpow)
  have "\<lfloor>log 2 \<bar>x\<bar>\<rfloor> = - int n"
    using floor_log_eq_powr_iff [of "\<bar>x\<bar>" 2 "- int n"] pos assms(1,2) a b by simp
  then have "ulp x = 2 powr (of_int (- int n) - 52)"
    using assms(3) by (simp add: ulp_def)
  also have "\<dots> = 2 powr (of_int (- int n)) / 2 powr 52"
    by (rule powr_diff)
  also have "\<dots> = 1 / (2 ^ n * 2 ^ 52)"
    unfolding a by simp
  finally show ?thesis .
qed

lemma binary64_near:
  assumes "x \<noteq> 0" and "ulp x = u" and "\<bar>x / u - of_int m\<bar> < 1 / 2"
  shows "binary64 x = of_int m * u"
  using assms round_even_near [of "x / u" m] by (simp add: binary64_def)

lemma binary64_between:
  assumes "ulp x = u" and "0 < u" and "0 < m"
    and "(of_int m - 1 / 2) * u < x" and "x < (of_int m + 1 / 2) * u"
  shows "binary64 x = of_int m * u"
proof -
  have "0 < (of_int m - 1 / 2) * u"
    using assms(2,3) by (intro mult_pos_pos) simp_all
  then have nz: "x \<noteq> 0" using assms(4) by linarith
  have "of_int m - 1 / 2 < x / u" "x / u < of_int m + 1 / 2"
    using assms(2,4,5) by (simp_all add: field_simps)
  then have "\<bar>x / u - of_int m\<bar> < 1 / 2" by linarith
  with nz assms(1) show ?thesis by (rule binary64_near)
qed

lemma binary64_9: "binary64 9 = 9"
proof -
  have u: "ulp 9 = 2 ^ 3 / 2 ^ 52" by (rule ulp_ge1) simp_all
  have "binary64 9 = of_int 5066549580791808 * (2 ^ 3 / 2 ^ 52)"
    by (rule binary64_near [OF _ u]) simp_all
  then show ?thesis by simp
qed

lemma binary64_18: "binary64 18 = 18"
proof -
  have u: "ulp 18 = 2 ^ 4 / 2 ^ 52" by (rule ulp_ge1) simp_all
  have "binary64 18 = of_int 5066549580791808 * (2 ^ 4 / 2 ^ 52)"
    by (rule binary64_near [OF _ u]) simp_all
  then show ?thesis by simp
qed

lemma sqrt18_binade: "2 ^ 2 \<le> \<bar>sqrt 18\<bar>" "\<bar>sqrt 18\<bar> < 2 * 2 ^ 2"
proof -
  have "4 \<le> sqrt 18" by (rule real_le_rsqrt) simp
  then show "2 ^ 2 \<le> \<bar>sqrt 18\<bar>" by simp
  have "sqrt 18 < 8" by (rule real_less_lsqrt) simp_all
  then show "\<bar>sqrt 18\<bar> < 2 * 2 ^ 2" by simp
qed

lemma binary64_sqrt18: "binary64 (sqrt 18) = 4776788754394329 / 2 ^ 50"
proof -
  have u: "ulp (sqrt 18) = 2 ^ 2 / 2 ^ 52"
    using sqrt18_binade by (rule ulp_ge1)
  have lo: "(of_int 4776788754394329 - 1 / 2) * (2 ^ 2 / 2 ^ 52) < sqrt 18"
    by (rule real_less_rsqrt) (simp add: power2_eq_square)
  have hi: "sqrt 18 < (of_int 4776788754394329 + 1 / 2) * (2 ^ 2 / 2 ^ 52)"
    by (rule real_less_lsqrt) (simp_all add: power2_eq_square)
  have "binary64 (sqrt 18) = of_int 4776788754394329 * (2 ^ 2 / 2 ^ 52)"
    using u _ _ lo hi by (rule binary64_between) simp_all
  then show ?thesis by simp
qed

lemma length64_330: "length64 (Vec3 3 3 0) = 4776788754394329 / 2 ^ 50"
  by (simp add: length64_def binary64_9 binary64_18 binary64_sqrt18 binary64_def [of 0])

lemma betaAsinArg64_330: "betaAsinArg64 (Vec3 3 3 0) = 6369051672525773 / 2 ^ 53"
proof -
  let ?x = "3 / (4776788754394329 / 2 ^ 50) :: real"
  have u: "ulp ?x = 1 / (2 ^ 1 * 2 ^ 52)" by (rule ulp_lt1) simp_all
  have "binary64 ?x = of_int 6369051672525773 * (1 / (2 ^ 1 * 2 ^ 52))"
    by (rule binary64_near [OF _ u]) simp_all
  then show ?thesis by (simp add: betaAsinArg64_def length64_330)
qed


lemma sum_upto_20:
  fixes f :: "nat \<Rightarrow> real"
  shows "(\<Sum>m<20. f m) = f 0 + f 1 + f 2 + f 3 + f 4 + f 5 + f 6 + f 7 + f 8 + f 9
     + f 10 + f 11 + f 12 + f 13 + f 14 + f 15 + f 16 + f 17 + f 18 + f 19"
  by (simp add: eval_nat_numeral)

lemma sin_poly20:
  "(\<Sum>m<20. sin_coeff m * x ^ m) =
     x - x ^ 3 / 6 + x ^ 5 / 120 - x ^ 7 / 5040 + x ^ 9 / 362880 - x ^ 11 / 39916800
       + x ^ 13 / 6227020800 - x ^ 15 / 1307674368000 + x ^ 17 / 355687428096000
       - x ^ 19 / 121645100408832000"
  unfolding sum_upto_20 by (simp add: sin_coeff_def fact_numeral)

lemma cos_poly20:
  "(\<Sum>m<20. cos_coeff m * x ^ m) =
     1 - x ^ 2 / 2 + x ^ 4 / 24 - x ^ 6 / 720 + x ^ 8 / 40320 - x ^ 10 / 3628800
       + x ^ 12 / 479001600 - x ^ 14 / 87178291200 + x ^ 16 / 20922789888000
       - x ^ 18 / 6402373705728000"
  unfolding sum_upto_20 by (simp add: cos_coeff_def fact_numeral)

lemma sin_upper: "sin x \<le> (\<Sum>m<n. sin_coeff m * x ^ m) + \<bar>x\<bar> ^ n / fact n"
  using Maclaurin_sin_bound [of x n] by (simp add: field_simps abs_le_iff)

lemma sin_lower: "(\<Sum>m<n. sin_coeff m * x ^ m) - \<bar>x\<bar> ^ n / fact n \<le> sin x"
  using Maclaurin_sin_bound [of x n] by (simp add: field_simps abs_le_iff)

lemma Maclaurin_cos_bound:
  "\<bar>cos x - (\<Sum>m<n. cos_coeff m * x ^ m)\<bar> \<le> \<bar>x\<bar> ^ n / fact n"
proof -
  obtain t where
    "cos x = (\<Sum>m<n. cos_coeff m * x ^ m) + (cos (t + 1 / 2 * real n * pi) / fact n) * x ^ n"
    using Maclaurin_cos_expansion [of x n] by blast
  then have "\<bar>cos x - (\<Sum>m<n. cos_coeff m * x ^ m)\<bar>
             = \<bar>cos (t + 1 / 2 * real n * pi)\<bar> * (\<bar>x\<bar> ^ n / fact n)"
    by (simp add: abs_mult power_abs)
  also have "\<dots> \<le> 1 * (\<bar>x\<bar> ^ n / fact n)"
    by (rule mult_right_mono) simp_all
  finally show ?thesis by simp
qed

lemma cos_upper: "cos x \<le> (\<Sum>m<n. cos_coeff m * x ^ m) + \<bar>x\<bar> ^ n / fact n"
  using Maclaurin_cos_bound [of x n] by (simp add: abs_le_iff)

lemma cos_lower: "(\<Sum>m<n. cos_coeff m * x ^ m) - \<bar>x\<bar> ^ n / fact n \<le> cos x"
  using Maclaurin_cos_bound [of x n] by (simp add: abs_le_iff)

lemma sin_below: "sin (14148475504056881 / 2 ^ 54) < (6369051672525773 / 2 ^ 53 :: real)"
proof -
  have "(\<Sum>m<20. sin_coeff m * (14148475504056881 / 2 ^ 54) ^ m)
        + \<bar>14148475504056881 / 2 ^ 54\<bar> ^ 20 / fact 20 < (6369051672525773 / 2 ^ 53 :: real)"
    unfolding sin_poly20 by (simp add: fact_numeral power_divide)
  then show ?thesis
    using sin_upper [of "14148475504056881 / 2 ^ 54" 20] by linarith
qed

lemma sin_above: "(6369051672525773 / 2 ^ 53 :: real) < sin (14148475504056883 / 2 ^ 54)"
proof -
  have "(6369051672525773 / 2 ^ 53 :: real)
        < (\<Sum>m<20. sin_coeff m * (14148475504056883 / 2 ^ 54) ^ m)
          - \<bar>14148475504056883 / 2 ^ 54\<bar> ^ 20 / fact 20"
    unfolding sin_poly20 by (simp add: fact_numeral power_divide)
  then show ?thesis
    using sin_lower [of "14148475504056883 / 2 ^ 54" 20] by linarith
qed

lemma arcsin_between:
  "(14148475504056881 / 2 ^ 54 :: real) < arcsin (6369051672525773 / 2 ^ 53)"
  "arcsin (6369051672525773 / 2 ^ 53) < (14148475504056883 / 2 ^ 54 :: real)"
proof -
  let ?q = "6369051672525773 / 2 ^ 53 :: real"
  let ?lo = "14148475504056881 / 2 ^ 54 :: real"
  let ?hi = "14148475504056883 / 2 ^ 54 :: real"
  have q: "- 1 \<le> ?q" "?q \<le> 1" by simp_all
  have half_pi: "1 \<le> pi / 2" using pi_ge_two by simp
  have lo: "- (pi / 2) \<le> ?lo" "?lo \<le> pi / 2"
    using half_pi by (simp_all add: order_trans [of _ 1])
  have hi: "- (pi / 2) \<le> ?hi" "?hi \<le> pi / 2"
    using half_pi by (simp_all add: order_trans [of _ 1])
  have "arcsin (sin ?lo) < arcsin ?q"
    using sin_below q by (intro arcsin_less_arcsin) simp_all
  then show "?lo < arcsin ?q" using arcsin_sin [OF lo] by simp
  have "arcsin ?q < arcsin (sin ?hi)"
    using sin_above q by (intro arcsin_less_arcsin) simp_all
  then show "arcsin ?q < ?hi" using arcsin_sin [OF hi] by simp
qed


lemma asin64_330:
  "asin64 (6369051672525773 / 2 ^ 53) = Some (7074237752028441 / 2 ^ 53)"
proof -
  let ?a = "arcsin (6369051672525773 / 2 ^ 53)"
  have lo: "(of_int 7074237752028441 - 1 / 2) * (1 / (2 ^ 1 * 2 ^ 52)) < ?a"
    using arcsin_between(1) by simp
  have hi: "?a < (of_int 7074237752028441 + 1 / 2) * (1 / (2 ^ 1 * 2 ^ 52))"
    using arcsin_between(2) by simp
  have "1 / 2 ^ 1 \<le> \<bar>?a\<bar>" "\<bar>?a\<bar> < 2 / 2 ^ 1"
    using arcsin_between by simp_all
  then have u: "ulp ?a = 1 / (2 ^ 1 * 2 ^ 52)" by (rule ulp_lt1) simp
  have "binary64 ?a = of_int 7074237752028441 * (1 / (2 ^ 1 * 2 ^ 52))"
    using u _ _ lo hi by (rule binary64_between) simp_all
  then show ?thesis by (simp add: asin64_def)
qed

lemma cos_between:
  "(12738103345051543 / 2 ^ 54 :: real) < cos (7074237752028441 / 2 ^ 53)"
  "cos (7074237752028441 / 2 ^ 53) < (12738103345051545 / 2 ^ 54 :: real)"
proof -
  let ?b = "7074237752028441 / 2 ^ 53 :: real"
  have "(12738103345051543 / 2 ^ 54 :: real)
        < (\<Sum>m<20. cos_coeff m * ?b ^ m) - \<bar>?b\<bar> ^ 20 / fact 20"
    unfolding cos_poly20 by (simp add: fact_numeral power_divide)
  then show "(12738103345051543 / 2 ^ 54 :: real) < cos ?b"
    using cos_lower [of ?b 20] by linarith
  have "(\<Sum>m<20. cos_coeff m * ?b ^ m) + \<bar>?b\<bar> ^ 20 / fact 20
        < (12738103345051545 / 2 ^ 54 :: real)"
    unfolding cos_poly20 by (simp add: fact_numeral power_divide)
  then show "cos ?b < (12738103345051545 / 2 ^ 54 :: real)"
    using cos_upper [of ?b 20] by linarith
qed

lemma cos64_330: "cos64 (7074237752028441 / 2 ^ 53) = 6369051672525772 / 2 ^ 53"
proof -
  let ?c = "cos (7074237752028441 / 2 ^ 53 :: real)"
  have lo: "(of_int 6369051672525772 - 1 / 2) * (1 / (2 ^ 1 * 2 ^ 52)) < ?c"
    using cos_between(1) by simp
  have hi: "?c < (of_int 6369051672525772 + 1 / 2) * (1 / (2 ^ 1 * 2 ^ 52))"
    using cos_between(2) by simp
  have "1 / 2 ^ 1 \<le> \<bar>?c\<bar>" "\<bar>?c\<bar> < 2 / 2 ^ 1"
    using cos_between by simp_all
  then have u: "ulp ?c = 1 / (2 ^ 1 * 2 ^ 52)" by (rule ulp_lt1) simp
  have "binary64 ?c = of_int 6369051672525772 * (1 / (2 ^ 1 * 2 ^ 52))"
    using u _ _ lo hi by (rule binary64_between) simp_all
  then show ?thesis by (simp add: cos64_def)
qed

lemma denominator64_330:
  "binary64 (length64 (Vec3 3 3 0) * cos64 (7074237752028441 / 2 ^ 53))
     = 6755399441055743 / 2 ^ 51"
proof -
  let ?x = "4776788754394329 / 2 ^ 50 * (6369051672525772 / 2 ^ 53) :: real"
  have u: "ulp ?x = 2 ^ 1 / 2 ^ 52" by (rule ulp_ge1) simp_all
  have "binary64 ?x = of_int 6755399441055743 * (2 ^ 1 / 2 ^ 52)"
    by (rule binary64_near [OF _ u]) simp_all
  then show ?thesis unfolding length64_330 cos64_330 by simp
qed

lemma alphaAsinArg64_330:
  "alphaAsinArg64 (7074237752028441 / 2 ^ 53) (Vec3 3 3 0) = 1 + 1 / 2 ^ 52"
proof -
  let ?x = "3 / (6755399441055743 / 2 ^ 51) :: real"
  have u: "ulp ?x = 2 ^ 0 / 2 ^ 52" by (rule ulp_ge1) simp_all
  have "binary64 ?x = of_int 4503599627370497 * (2 ^ 0 / 2 ^ 52)"
    by (rule binary64_near [OF _ u]) simp_all
  then show ?thesis
    unfolding alphaAsinArg64_def denominator64_330 by simp
qed

text \<open>
  C2 at the body-local velocity \<open>(3, 3, 0)\<close>, in double precision. The speed is
  \<open>4.242640687119285\<close>, the first quotient \<open>0.7071067811865476\<close> and the sideslip
  \<open>0.7853981633974484\<close>. The second quotient, \<open>vy / (s \<sqdot> cos \<beta>)\<close> with the denominator
  rounded to \<open>2.9999999999999996\<close>, comes out as \<open>1 + 2\<^sup>-\<^sup>5\<^sup>2\<close>, which is
  \<open>1.0000000000000002\<close>. Nothing clamps it: \<open>Math.asin\<close> receives an argument above 1, and
  the angle of attack is not a number.
\<close>
theorem asin_argument_overshoot:
  "length64 (Vec3 3 3 0) = 4776788754394329 / 2 ^ 50
 \<and> length64 (Vec3 3 3 0) > 0.5
 \<and> betaAsinArg64 (Vec3 3 3 0) = 6369051672525773 / 2 ^ 53
 \<and> beta64 (Vec3 3 3 0) = Some (7074237752028441 / 2 ^ 53)
 \<and> alphaAsinArg64 (7074237752028441 / 2 ^ 53) (Vec3 3 3 0) = 1 + 1 / 2 ^ 52
 \<and> 1 < alphaAsinArg64 (7074237752028441 / 2 ^ 53) (Vec3 3 3 0)
 \<and> asin64 (alphaAsinArg64 (7074237752028441 / 2 ^ 53) (Vec3 3 3 0)) = None
 \<and> alpha64 (Vec3 3 3 0) = None"
proof -
  let ?B = "7074237752028441 / 2 ^ 53 :: real"
  have fast: "length64 (Vec3 3 3 0) > 0.5"
    unfolding length64_330 by simp
  have b: "beta64 (Vec3 3 3 0) = Some ?B"
    using fast unfolding beta64_def betaAsinArg64_330 asin64_330 by simp
  have over: "1 < alphaAsinArg64 ?B (Vec3 3 3 0)"
    unfolding alphaAsinArg64_330 by simp
  then have nan: "asin64 (alphaAsinArg64 ?B (Vec3 3 3 0)) = None"
    by (simp add: asin64_def)
  have "alpha64 (Vec3 3 3 0) =
          (if binary64 (length64 (Vec3 3 3 0) * cos64 ?B) = 0 then None
           else map_option uminus (asin64 (alphaAsinArg64 ?B (Vec3 3 3 0))))"
    using fast unfolding alpha64_def b by simp
  then have a: "alpha64 (Vec3 3 3 0) = None"
    unfolding denominator64_330 nan by simp
  show ?thesis
    using length64_330 fast betaAsinArg64_330 b alphaAsinArg64_330 over nan a by blast
qed

end
